theory Spec2Isabelle
  imports Main "HOL-Library.Sublist" "HOL-Library.Word"
begin

section \<open>Python strings\<close>

text \<open>
  A Python \<open>str\<close> is modelled as a \<open>string\<close>: a list of characters, each one
  code point below 256 (ASCII and Latin-1). Code points from 256 on are outside
  the model. On this range \<open>str.lower\<close> maps \<open>A\<close>..\<open>Z\<close> and the Latin-1
  capitals (192..222 without the multiplication sign 215) to the code point 32
  higher and leaves every other character alone.
\<close>

definition lower_char :: "char \<Rightarrow> char" where
  "lower_char c =
     (let n = (of_char c :: nat) in
      if (65 \<le> n \<and> n \<le> 90) \<or> (192 \<le> n \<and> n \<le> 222 \<and> n \<noteq> 215)
      then char_of (n + 32) else c)"

definition lower :: "string \<Rightarrow> string" where
  "lower s = map lower_char s"

text \<open>\<open>word in text\<close>: \<open>word\<close> occurs in \<open>text\<close> as a contiguous run.\<close>

fun str_contains :: "string \<Rightarrow> string \<Rightarrow> bool" where
  "str_contains w [] = (w = [])"
| "str_contains w (c # cs) = (prefix w (c # cs) \<or> str_contains w cs)"

text \<open>
  \<open>str.strip()\<close> removes the white space at both ends; below code point 256 the
  white-space characters are 9..13, 28..32, 133 and 160.
\<close>

definition is_space :: "char \<Rightarrow> bool" where
  "is_space c =
     (let n = (of_char c :: nat) in
      (9 \<le> n \<and> n \<le> 13) \<or> (28 \<le> n \<and> n \<le> 32) \<or> n = 133 \<or> n = 160)"

definition strip :: "string \<Rightarrow> string" where
  "strip s = rev (dropWhile is_space (rev (dropWhile is_space s)))"

definition startswith :: "string \<Rightarrow> string \<Rightarrow> bool" where
  "startswith s p = prefix p s"

text \<open>
  \<open>s.replace(old, new)\<close>: every occurrence of \<open>old\<close> is replaced, scanning from the
  left, an occurrence starting only after the end of the one before it. With an
  empty \<open>old\<close> Python puts \<open>new\<close> before every character and at the end.
\<close>

fun str_replace :: "string \<Rightarrow> string \<Rightarrow> string \<Rightarrow> string" where
  "str_replace old new [] = (if old = [] then new else [])"
| "str_replace old new (c # cs) =
     (case old of
        [] \<Rightarrow> new @ c # str_replace old new cs
      | _ # os \<Rightarrow>
          if prefix old (c # cs)
          then new @ str_replace old new (drop (length os) cs)
          else c # str_replace old new cs)"

section \<open>The industry classifier\<close>

definition banking_keywords :: "string list" where
  "banking_keywords =
     [''account'', ''bank'', ''credit'', ''debit'', ''loan'', ''mortgage'',
      ''transaction'', ''payment'', ''balance'']"

definition insurance_keywords :: "string list" where
  "insurance_keywords =
     [''claim'', ''policy'', ''premium'', ''coverage'', ''accident'', ''medical'',
      ''health'', ''auto insurance'']"

definition it_keywords :: "string list" where
  "it_keywords =
     [''password'', ''login'', ''vpn'', ''system'', ''software'', ''network'',
      ''email'', ''access'', ''computer'']"

text \<open>\<open>sum(1 for word in keywords if word in text)\<close>\<close>

definition keyword_score :: "string list \<Rightarrow> string \<Rightarrow> nat" where
  "keyword_score keywords text = length (filter (\<lambda>word. str_contains word text) keywords)"

text \<open>\<open>text = f"{subject} {body}".lower()\<close>\<close>

definition industry_text :: "string \<Rightarrow> string \<Rightarrow> string" where
  "industry_text subject body = lower (subject @ '' '' @ body)"

definition banking_score :: "string \<Rightarrow> string \<Rightarrow> nat" where
  "banking_score subject body = keyword_score banking_keywords (industry_text subject body)"

definition insurance_score :: "string \<Rightarrow> string \<Rightarrow> nat" where
  "insurance_score subject body = keyword_score insurance_keywords (industry_text subject body)"

definition it_score :: "string \<Rightarrow> string \<Rightarrow> nat" where
  "it_score subject body = keyword_score it_keywords (industry_text subject body)"

definition detect_industry :: "string \<Rightarrow> string \<Rightarrow> string" where
  "detect_industry subject body =
     (if banking_score subject body \<ge> insurance_score subject body
         \<and> banking_score subject body \<ge> it_score subject body
      then ''banking''
      else if insurance_score subject body \<ge> it_score subject body
      then ''insurance''
      else if it_score subject body > 0
      then ''it_support''
      else ''other'')"

section \<open>Exceptions and JSON values\<close>

text \<open>
  The exceptions the handlers meet, all of them subclasses of Python's
  \<open>Exception\<close>: FastAPI's \<open>HTTPException\<close> (status code and detail),
  \<open>json.JSONDecodeError\<close>, \<open>KeyError\<close>, \<open>TypeError\<close>, pydantic's
  \<open>ValidationError\<close>, and \<open>Error\<close> for any other one. A detail is a literal
  message or \<open>str(e)\<close> of a caught exception, which is kept symbolic. Exits that
  are no \<open>Exception\<close> (\<open>KeyboardInterrupt\<close>, \<open>SystemExit\<close>) are outside the
  model. A computation that may raise returns \<open>exn + 'a\<close>, \<open>Inl\<close> the exception.
\<close>

datatype exn =
    HTTPException nat detail
  | JSONDecodeError
  | KeyError string
  | TypeError
  | ValidationError
  | Error string
and detail = Detail string | StrOf exn

text \<open>
  What \<open>json.loads\<close> yields. A Python \<open>float\<close> is its 64 bits; a \<open>dict\<close> is the
  list of its items, a key bound to the first value listed for it.
\<close>

datatype json =
    JNull
  | JBool bool
  | JInt int
  | JFloat "64 word"
  | JString string
  | JArray "json list"
  | JObject "(string \<times> json) list"

text \<open>\<open>value[key]\<close> with a string key: only a \<open>dict\<close> can be subscripted by it.\<close>

fun getitem :: "json \<Rightarrow> string \<Rightarrow> exn + json" where
  "getitem (JObject items) key =
     (case map_of items key of None \<Rightarrow> Inl (KeyError key) | Some v \<Rightarrow> Inr v)"
| "getitem _ key = Inl TypeError"

text \<open>
  The library functions the handlers call: \<open>json.loads\<close>, and the validating
  constructors of the pydantic response models \<open>AnalysisResponse(**d)\<close> and
  \<open>ActionResponse(**d)\<close>. They are parameters of the model; a validated
  response is represented by the JSON value it is serialised to.
\<close>

record lib =
  json_loads :: "string \<Rightarrow> exn + json"
  AnalysisResponse :: "json \<Rightarrow> exn + json"
  ActionResponse :: "json \<Rightarrow> exn + json"

section \<open>Requests, records and the two stores\<close>

record EmailSubmission =
  from_email :: string
  subject :: string
  body :: string

record AnalysisRequest =
  email_id :: string

record ActionExecution =
  exec_email_id :: string
  action_id :: string
  action_label :: string

text \<open>
  The dictionary \<open>email_record\<close> that \<open>submit_email\<close> builds; its keys are the
  fields (the key \<open>id\<close> is the field \<open>rec_id\<close>, the others carry the prefix
  \<open>rec_\<close>).
\<close>

record email_record =
  rec_id :: string
  rec_from_email :: string
  rec_subject :: string
  rec_body :: string
  rec_timestamp :: string
  rec_industry :: string
  rec_sentiment :: string
  rec_status :: string

text \<open>The module-level dictionaries \<open>emails_db\<close> and \<open>analysis_cache\<close>.\<close>

record state =
  emails_db :: "string \<rightharpoonup> email_record"
  analysis_cache :: "string \<rightharpoonup> json"

definition init_state :: state where
  "init_state = \<lparr>emails_db = Map.empty, analysis_cache = Map.empty\<rparr>"

section \<open>The external model\<close>

text \<open>
  A prompt is an f-string; the model keeps the template and the values put into
  it. \<open>AnalysisPrompt\<close> holds the email's id, subject, body, sender and status,
  \<open>ActionPrompt\<close> the action label, the analysis' industry and summary and the
  email's body and id, \<open>TextPrompt\<close> a literal text.
\<close>

datatype prompt =
    AnalysisPrompt string string string string string
  | ActionPrompt string json json string string
  | TextPrompt string

text \<open>
  \<open>model.generate_content(prompt).text\<close> of the external service: it yields a
  text or raises.
\<close>

type_synonym gemini = "prompt \<Rightarrow> exn + string"

text \<open>The text \<open>json.dumps\<close> gives for the fallback dictionary of \<open>call_gemini_api\<close>.\<close>

definition fallback_text :: string where
  "fallback_text =
      ''{\"industry\": \"unknown\", \"confidence\": 0.5, \"categorization\": '' @
      ''{\"level1\": \"General\", \"level2\": \"Support\", \"level3\": '' @
      ''\"Inquiry\"}, \"analysis\": {\"sentiment\": \"neutral\", \"urgency\": '' @
      ''\"medium\", \"summary\": \"Customer inquiry received\", '' @
      ''\"customer_type\": \"individual\", \"issue_complexity\": '' @
      ''\"moderate\"}, \"suggested_actions\": [{\"id\": \"acknowledge\", '' @
      ''\"label\": \"Acknowledge Receipt\", \"description\": \"Send '' @
      ''acknowledgment to customer\", \"api_endpoint\": \"/api/acknowledge\", '' @
      ''\"priority\": \"primary\"}], \"initial_reply_draft\": \"Thank you for '' @
      ''contacting us. We have received your inquiry and will respond '' @
      ''shortly.\", \"next_steps\": [\"Review inquiry\", \"Contact '' @
      ''customer\"], \"estimated_resolution\": \"24 hours\"}''"

text \<open>\<open>try: return response.text / except Exception: return json.dumps(...)\<close>\<close>

definition call_gemini_api :: "gemini \<Rightarrow> prompt \<Rightarrow> exn + string" where
  "call_gemini_api g prompt =
     (case g prompt of
        Inr text \<Rightarrow> Inr text
      | Inl e \<Rightarrow> Inr fallback_text)"

section \<open>Cleaning the model's response\<close>

text \<open>
  The lines both handlers run on the response before \<open>json.loads\<close>:
  \<^verbatim>\<open>
  clean_response = response.strip()
  if clean_response.startswith('```json'):
      clean_response = clean_response.replace('```json\n', '').replace('\n```', '')
  if clean_response.startswith('```'):
      clean_response = clean_response.replace('```\n', '').replace('\n```', '')
  \<close>
\<close>

definition clean_response :: "string \<Rightarrow> string" where
  "clean_response response =
     (let c0 = strip response;
          c1 = (if startswith c0 ''```json''
                then str_replace ''\<newline>```'' []
                       (str_replace ''```json\<newline>'' [] c0)
                else c0)
      in if startswith c1 ''```''
         then str_replace ''\<newline>```'' [] (str_replace ''```\<newline>'' [] c1)
         else c1)"

section \<open>The endpoint handlers\<close>

text \<open>
  A handler returns what it answers (\<open>Inl\<close> the exception it raises), the two
  stores as it leaves them, and the prompts it sent to the external model, in
  order. FastAPI answers a raised \<open>HTTPException\<close> with its status code and a
  returned value with 200.
\<close>

type_synonym 'a outcome = "(exn + 'a) \<times> state \<times> prompt list"

text \<open>\<open>except Exception as e: raise HTTPException(status_code=500, detail=str(e))\<close>\<close>

definition except_500 :: "'a outcome \<Rightarrow> 'a outcome" where
  "except_500 r =
     (case r of
        (Inl e, s, calls) \<Rightarrow> (Inl (HTTPException 500 (StrOf e)), s, calls)
      | (Inr v, s, calls) \<Rightarrow> (Inr v, s, calls))"

definition status_code :: "exn + 'a \<Rightarrow> nat" where
  "status_code r =
     (case r of
        Inr v \<Rightarrow> 200
      | Inl (HTTPException code d) \<Rightarrow> code
      | Inl e \<Rightarrow> 500)"

text \<open>
  \<open>submit_email\<close>; \<open>uuid4\<close> is the text of the identifier \<open>uuid.uuid4()\<close>
  generates and \<open>now\<close> that of \<open>datetime.now().isoformat()\<close>.
\<close>

definition new_email_record :: "string \<Rightarrow> string \<Rightarrow> EmailSubmission \<Rightarrow> email_record" where
  "new_email_record new_id now email =
     \<lparr>rec_id = new_id,
      rec_from_email = from_email email,
      rec_subject = subject email,
      rec_body = body email,
      rec_timestamp = now,
      rec_industry = detect_industry (subject email) (body email),
      rec_sentiment = ''neutral'',
      rec_status = ''new''\<rparr>"

definition submit_email_body ::
  "string \<Rightarrow> string \<Rightarrow> state \<Rightarrow> EmailSubmission \<Rightarrow> email_record outcome" where
  "submit_email_body uuid4 now s email =
     (let new_id = uuid4;
          email_record = new_email_record new_id now email
      in (Inr email_record,
          s\<lparr>emails_db := (emails_db s)(new_id \<mapsto> email_record)\<rparr>,
          []))"

definition submit_email ::
  "string \<Rightarrow> string \<Rightarrow> state \<Rightarrow> EmailSubmission \<Rightarrow> email_record outcome" where
  "submit_email uuid4 now s email = except_500 (submit_email_body uuid4 now s email)"

definition analysis_prompt :: "email_record \<Rightarrow> prompt" where
  "analysis_prompt email =
     AnalysisPrompt (rec_id email) (rec_subject email) (rec_body email)
       (rec_from_email email) (rec_status email)"

definition fallback_prompt :: prompt where
  "fallback_prompt = TextPrompt ''Return a simple JSON with basic analysis''"

text \<open>
  \<^verbatim>\<open>
  try:
      analysis_result = json.loads(clean_response)
  except json.JSONDecodeError as e:
      analysis_result = json.loads(await call_gemini_api("Return a simple JSON ..."))
  \<close>
  with the prompts it sent.
\<close>

definition parse_analysis :: "lib \<Rightarrow> gemini \<Rightarrow> string \<Rightarrow> (exn + json) \<times> prompt list" where
  "parse_analysis L g cleaned =
     (case json_loads L cleaned of
        Inr analysis_result \<Rightarrow> (Inr analysis_result, [])
      | Inl JSONDecodeError \<Rightarrow>
          (case call_gemini_api g fallback_prompt of
             Inl e \<Rightarrow> (Inl e, [fallback_prompt])
           | Inr text \<Rightarrow> (json_loads L text, [fallback_prompt]))
      | Inl e \<Rightarrow> (Inl e, []))"

definition analyze_email_body ::
  "lib \<Rightarrow> gemini \<Rightarrow> state \<Rightarrow> AnalysisRequest \<Rightarrow> json outcome" where
  "analyze_email_body L g s request =
     (let eid = email_id request in
      case analysis_cache s eid of
        Some cached \<Rightarrow> (AnalysisResponse L cached, s, [])
      | None \<Rightarrow>
          (case emails_db s eid of
             None \<Rightarrow> (Inl (HTTPException 404 (Detail ''Email not found'')), s, [])
           | Some email \<Rightarrow>
               (case call_gemini_api g (analysis_prompt email) of
                  Inl e \<Rightarrow> (Inl e, s, [analysis_prompt email])
                | Inr response \<Rightarrow>
                    (case parse_analysis L g (clean_response response) of
                       (Inl e, calls) \<Rightarrow> (Inl e, s, analysis_prompt email # calls)
                     | (Inr analysis_result, calls) \<Rightarrow>
                         (AnalysisResponse L analysis_result,
                          s\<lparr>analysis_cache := (analysis_cache s)(eid \<mapsto> analysis_result)\<rparr>,
                          analysis_prompt email # calls)))))"

definition analyze_email ::
  "lib \<Rightarrow> gemini \<Rightarrow> state \<Rightarrow> AnalysisRequest \<Rightarrow> json outcome" where
  "analyze_email L g s request = except_500 (analyze_email_body L g s request)"

text \<open>
  The prompt of \<open>execute_action\<close>; the f-string reads \<open>analysis['industry']\<close>,
  then \<open>analysis['analysis']['summary']\<close>, and any of the subscripts may raise.
\<close>

definition action_prompt :: "ActionExecution \<Rightarrow> json \<Rightarrow> email_record \<Rightarrow> exn + prompt" where
  "action_prompt request analysis email =
     (case getitem analysis ''industry'' of
        Inl e \<Rightarrow> Inl e
      | Inr industry \<Rightarrow>
          (case getitem analysis ''analysis'' of
             Inl e \<Rightarrow> Inl e
           | Inr a \<Rightarrow>
               (case getitem a ''summary'' of
                  Inl e \<Rightarrow> Inl e
                | Inr summary \<Rightarrow>
                    Inr (ActionPrompt (action_label request) industry summary
                           (rec_body email) (rec_id email)))))"

text \<open>The dictionary \<open>execute_action\<close> builds when the response is no JSON.\<close>

definition fallback_action_result :: "ActionExecution \<Rightarrow> string \<Rightarrow> json" where
  "fallback_action_result request now =
     JObject
       [(''tool_response'',
         JObject
           [(''status'', JString ''success''),
            (''data'', JString ''Action executed successfully''),
            (''message'', JString (''Executed '' @ action_label request)),
            (''timestamp'', JString now)]),
        (''updated_reply_draft'',
         JString (''Thank you for your inquiry. We have processed your request '' @
                  ''and will respond shortly.''))]"

definition execute_action_body ::
  "lib \<Rightarrow> gemini \<Rightarrow> string \<Rightarrow> state \<Rightarrow> ActionExecution \<Rightarrow> json outcome" where
  "execute_action_body L g now s request =
     (let eid = exec_email_id request in
      case emails_db s eid of
        None \<Rightarrow> (Inl (HTTPException 404 (Detail ''Email not found'')), s, [])
      | Some email \<Rightarrow>
          (case analysis_cache s eid of
             None \<Rightarrow> (Inl (HTTPException 404 (Detail ''Analysis not found'')), s, [])
           | Some analysis \<Rightarrow>
               (case action_prompt request analysis email of
                  Inl e \<Rightarrow> (Inl e, s, [])
                | Inr prompt \<Rightarrow>
                    (case call_gemini_api g prompt of
                       Inl e \<Rightarrow> (Inl e, s, [prompt])
                     | Inr response \<Rightarrow>
                         (case json_loads L (clean_response response) of
                            Inr action_result \<Rightarrow> (ActionResponse L action_result, s, [prompt])
                          | Inl JSONDecodeError \<Rightarrow>
                              (ActionResponse L (fallback_action_result request now), s,
                               [prompt])
                          | Inl e \<Rightarrow> (Inl e, s, [prompt]))))))"

definition execute_action ::
  "lib \<Rightarrow> gemini \<Rightarrow> string \<Rightarrow> state \<Rightarrow> ActionExecution \<Rightarrow> json outcome" where
  "execute_action L g now s request = except_500 (execute_action_body L g now s request)"

text \<open>
  \<open>generate_sample_emails\<close> is \<open>base_emails.get(industry, base_emails["banking"])\<close>;
  the canned list it returns is named by its key.
\<close>

definition generate_sample_emails :: "string \<Rightarrow> string" where
  "generate_sample_emails industry =
     (if industry \<in> set [''banking'', ''insurance'', ''it_support'']
      then industry else ''banking'')"

section \<open>Runs of the service\<close>

text \<open>
  One request to one of the seven routes, with what the environment gives the
  handler while it runs: the generated identifier and the clock for
  \<open>submit_email\<close>, the external model for \<open>analyze_email\<close> and
  \<open>execute_action\<close>, the clock for \<open>execute_action\<close> and \<open>health_check\<close>.
\<close>

datatype event =
    Root
  | GetTemplates
  | SubmitEmail EmailSubmission string string
  | GetEmailsByIndustry string
  | AnalyzeEmail AnalysisRequest gemini
  | ExecuteAction ActionExecution gemini string
  | HealthCheck string

datatype answer =
    Message string
  | Templates
  | EmailResponse email_record
  | SampleEmails string
  | Analysis json
  | Action json
  | Health string

definition answer_with :: "('a \<Rightarrow> answer) \<Rightarrow> 'a outcome \<Rightarrow> answer outcome" where
  "answer_with f r =
     (case r of
        (Inl e, s, calls) \<Rightarrow> (Inl e, s, calls)
      | (Inr v, s, calls) \<Rightarrow> (Inr (f v), s, calls))"

fun step :: "lib \<Rightarrow> state \<Rightarrow> event \<Rightarrow> answer outcome" where
  "step L s Root = (Inr (Message ''AI Customer Support API is running''), s, [])"
| "step L s GetTemplates = (Inr Templates, s, [])"
| "step L s (SubmitEmail email uuid4 now) =
     answer_with EmailResponse (submit_email uuid4 now s email)"
| "step L s (GetEmailsByIndustry industry) =
     except_500 (Inr (SampleEmails (generate_sample_emails industry)), s, [])"
| "step L s (AnalyzeEmail request g) = answer_with Analysis (analyze_email L g s request)"
| "step L s (ExecuteAction request g now) =
     answer_with Action (execute_action L g now s request)"
| "step L s (HealthCheck now) = (Inr (Health now), s, [])"

definition next_state :: "lib \<Rightarrow> state \<Rightarrow> event \<Rightarrow> state" where
  "next_state L s ev = fst (snd (step L s ev))"

definition run :: "lib \<Rightarrow> state \<Rightarrow> event list \<Rightarrow> state" where
  "run L s evs = foldl (next_state L) s evs"

text \<open>The identifiers \<open>uuid.uuid4()\<close> generated during a run, in order.\<close>

fun generated_ids :: "event list \<Rightarrow> string list" where
  "generated_ids [] = []"
| "generated_ids (SubmitEmail email uuid4 now # evs) = uuid4 # generated_ids evs"
| "generated_ids (ev # evs) = generated_ids evs"

section \<open>The cleaning as the specification words it\<close>

text \<open>
  The specification's contract for the cleaning, to compare \<open>clean_response\<close>
  with: "strip a leading/trailing delimiter pattern (a fenced-code-block marker)
  if present". After trimming, an opening marker is removed at the start only
  and a closing marker at the end only.
\<close>

definition spec_strip_fence :: "string \<Rightarrow> string" where
  "spec_strip_fence response =
     (let c0 = strip response;
          c1 = (if prefix ''```json\<newline>'' c0 then drop 8 c0
                else if prefix ''```\<newline>'' c0 then drop 4 c0
                else c0)
      in if suffix ''\<newline>```'' c1 then take (length c1 - 4) c1 else c1)"

section \<open>Sample inputs\<close>

text \<open>
  Stand-ins for the environment at concrete inputs: a \<open>json.loads\<close> that knows
  the text \<open>{}\<close> only, response models that accept every value (\<open>stub_lib\<close>)
  or reject the empty object, which lacks every required field
  (\<open>strict_lib\<close>), an external model that always answers with one text, and
  one that always raises.
\<close>

definition stub_lib :: lib where
  "stub_lib =
     \<lparr>json_loads = (\<lambda>text. if text = ''{}'' then Inr (JObject []) else Inl JSONDecodeError),
      AnalysisResponse = Inr,
      ActionResponse = Inr\<rparr>"


definition answers_with :: "string \<Rightarrow> gemini" where
  "answers_with text = (\<lambda>prompt. Inr text)"

definition unavailable :: gemini where
  "unavailable = (\<lambda>prompt. Inl (Error ''service unavailable''))"

definition sample_email :: EmailSubmission where
  "sample_email = \<lparr>from_email = ''a@b.c'', subject = ''Loan'', body = ''my mortgage''\<rparr>"


text \<open>The stores after one submission, before any analysis.\<close>

definition one_email :: state where
  "one_email =
     \<lparr>emails_db = [''id-1'' \<mapsto> new_email_record ''id-1'' ''12:00'' sample_email],
      analysis_cache = Map.empty\<rparr>"


section \<open>Facts about the string operations\<close>

lemma str_contains_iff: "str_contains w t \<longleftrightarrow> (\<exists>ps ss. t = ps @ w @ ss)"
proof (induction t)
  case Nil
  then show ?case by auto
next
  case (Cons c cs)
  have "(\<exists>ps ss. c # cs = ps @ w @ ss) \<longleftrightarrow> prefix w (c # cs) \<or> (\<exists>ps ss. cs = ps @ w @ ss)"
    (is "?L \<longleftrightarrow> ?P \<or> ?R")
  proof
    assume ?L
    then obtain ps ss where eq: "c # cs = ps @ w @ ss" by blast
    show "?P \<or> ?R"
    proof (cases ps)
      case Nil
      with eq show ?thesis by (auto simp: prefix_def)
    next
      case (Cons p ps')
      with eq have "cs = ps' @ w @ ss" by simp
      then show ?thesis by blast
    qed
  next
    assume "?P \<or> ?R"
    then show ?L
    proof
      assume ?P
      then obtain ss where "c # cs = w @ ss" by (auto simp: prefix_def)
      then have "c # cs = [] @ w @ ss" by simp
      then show ?L by blast
    next
      assume ?R
      then obtain ps ss where "cs = ps @ w @ ss" by blast
      then have "c # cs = (c # ps) @ w @ ss" by simp
      then show ?L by blast
    qed
  qed
  with Cons.IH show ?case by simp
qed

lemma str_contains_Nil [simp]: "str_contains [] t"
  by (cases t) simp_all

lemma str_replace_absent:
  "\<not> str_contains old s \<Longrightarrow> str_replace old new s = s"
proof (induction s)
  case Nil
  then show ?case by simp
next
  case (Cons c cs)
  then show ?case by (cases old) auto
qed

lemma str_replace_at_start:
  "old \<noteq> [] \<Longrightarrow> str_replace old new (old @ s) = new @ str_replace old new s"
  by (cases old) simp_all

text \<open>
  A text whose last character does not occur in \<open>w\<close> cannot hold the beginning
  of an occurrence of \<open>w\<close> that ends in what follows it.
\<close>

lemma not_prefix_over_end:
  assumes "\<not> prefix w s" and "s \<noteq> []" and "last s \<notin> set w"
  shows "\<not> prefix w (s @ t)"
proof
  assume "prefix w (s @ t)"
  then consider "prefix w s" | us where "w = s @ us"
    by (auto simp: prefix_append)
  then show False
  proof cases
    case 1
    with assms(1) show False by simp
  next
    case 2
    with assms(2) have "last s \<in> set w" by simp
    with assms(3) show False by simp
  qed
qed

lemma not_contains_append:
  assumes "\<not> str_contains w s" and "s \<noteq> []" and "last s \<notin> set w" and "\<not> str_contains w t"
  shows "\<not> str_contains w (s @ t)"
  using assms
proof (induction s)
  case Nil
  then show ?case by simp
next
  case (Cons c cs)
  from Cons.prems(1) have np: "\<not> prefix w (c # cs)" and nc: "\<not> str_contains w cs"
    by simp_all
  from np Cons.prems(3) have 1: "\<not> prefix w ((c # cs) @ t)"
    by (intro not_prefix_over_end) simp_all
  have 2: "\<not> str_contains w (cs @ t)"
  proof (cases cs)
    case Nil
    with Cons.prems(4) show ?thesis by simp
  next
    case (Cons d ds)
    with Cons.prems(3) have "last cs \<notin> set w" by simp
    with nc Cons Cons.IH Cons.prems(4) show ?thesis by simp
  qed
  from 1 2 show ?case by simp
qed

text \<open>
  A pattern whose first character does not occur again in it, appended to a
  text without the pattern, is the only occurrence and is removed.
\<close>

lemma str_replace_at_end:
  assumes "c \<notin> set rest" and "\<not> str_contains (c # rest) s"
  shows "str_replace (c # rest) [] (s @ c # rest) = s"
  using assms(2)
proof (induction s)
  case Nil
  show ?case using str_replace_at_start [of "c # rest" "[]" "[]"] by simp
next
  case (Cons x xs)
  from Cons.prems have np: "\<not> prefix (c # rest) (x # xs)" and nc: "\<not> str_contains (c # rest) xs"
    by simp_all
  have "\<not> prefix (c # rest) (x # xs @ c # rest)"
  proof
    assume p: "prefix (c # rest) (x # xs @ c # rest)"
    then have "x = c" and "prefix rest (xs @ c # rest)" by auto
    then consider "prefix rest xs" | us where "rest = xs @ us" "prefix us (c # rest)"
      by (auto simp: prefix_append)
    then show False
    proof cases
      case 1
      with \<open>x = c\<close> np show False by simp
    next
      case 2
      show False
      proof (cases us)
        case Nil
        with 2 \<open>x = c\<close> np show False by simp
      next
        case (Cons u us')
        with 2 have "u = c" by simp
        with 2 Cons have "c \<in> set rest" by simp
        with assms(1) show False by simp
      qed
    qed
  qed
  with Cons.IH [OF nc] show ?case by auto
qed

lemma strip_unchanged:
  assumes "s \<noteq> []" and "\<not> is_space (hd s)" and "\<not> is_space (last s)"
  shows "strip s = s"
proof -
  from assms(1,2) have 1: "dropWhile is_space s = s"
    by (cases s) simp_all
  from assms(1,3) have 2: "dropWhile is_space (rev s) = rev s"
    by (cases s rule: rev_cases) simp_all
  from 1 2 show ?thesis by (simp add: strip_def)
qed

lemma clean_response_no_fence:
  assumes "\<not> startswith (strip r) ''```''"
  shows "clean_response r = strip r"
proof -
  have "prefix ''```'' ''```json''"
    by simp
  with assms have "\<not> startswith (strip r) ''```json''"
    unfolding startswith_def using prefix_order.trans by blast
  with assms show ?thesis
    by (simp add: clean_response_def Let_def)
qed

section \<open>The classifier: what the code computes\<close>

lemma keyword_score_le: "keyword_score keywords text \<le> length keywords"
  by (simp add: keyword_score_def)

lemma keyword_score_zero_iff:
  "keyword_score keywords text = 0 \<longleftrightarrow> (\<forall>word \<in> set keywords. \<not> str_contains word text)"
  by (simp add: keyword_score_def filter_empty_conv)

text \<open>
  Claim C1. The classifier lower-cases subject, a blank and body, scores each of
  the three keyword lists by the number of its keywords that occur in the text,
  and returns the industry with the greatest score, the earlier one on a tie;
  the claim adds that it returns \<open>other\<close> when the three scores are zero. The
  code never returns \<open>other\<close>: with three scores of zero, as for the empty
  subject and body, the first test
  \<open>banking_score >= insurance_score and banking_score >= it_score\<close> holds and
  the answer is \<open>banking\<close>, so the final \<open>else\<close> cannot be reached.
\<close>

theorem detect_industry_never_other:
  "banking_score [] [] = 0 \<and> insurance_score [] [] = 0 \<and> it_score [] [] = 0
   \<and> detect_industry [] [] = ''banking''
   \<and> (\<forall>subj txt. detect_industry subj txt \<noteq> ''other'')"
proof -
  have "banking_score [] [] = 0 \<and> insurance_score [] [] = 0 \<and> it_score [] [] = 0
      \<and> detect_industry [] [] = ''banking''"
    by code_simp
  moreover have "\<forall>subj txt. detect_industry subj txt \<noteq> ''other''"
    by (simp add: detect_industry_def)
  ultimately show ?thesis by simp
qed

text \<open>
  The part of C1 that holds: the tag returned is one of the three industries,
  its score is the greatest of the three, and every industry before it in the
  order banking, insurance, it_support has a strictly smaller score.
\<close>

theorem detect_industry_max:
  "(detect_industry subj txt = ''banking''
      \<and> insurance_score subj txt \<le> banking_score subj txt
      \<and> it_score subj txt \<le> banking_score subj txt)
   \<or> (detect_industry subj txt = ''insurance''
      \<and> banking_score subj txt < insurance_score subj txt
      \<and> it_score subj txt \<le> insurance_score subj txt)
   \<or> (detect_industry subj txt = ''it_support''
      \<and> banking_score subj txt < it_score subj txt
      \<and> insurance_score subj txt < it_score subj txt)"
  unfolding detect_industry_def by auto

text \<open>
  Claim C3. A text without any keyword is classified as banking, not as the
  residual tag: subject \<open>Hello there\<close> and body \<open>Good morning\<close> score zero
  on the three lists. (The same defect as in C1.)
\<close>

theorem detect_industry_no_keyword:
  "banking_score ''Hello there'' ''Good morning'' = 0
   \<and> insurance_score ''Hello there'' ''Good morning'' = 0
   \<and> it_score ''Hello there'' ''Good morning'' = 0
   \<and> detect_industry ''Hello there'' ''Good morning'' = ''banking''"
  by code_simp

text \<open>
  The parts of C3 that hold: a text with keywords of one list only (at least
  one) gets that list's tag.
\<close>

theorem detect_industry_single_list:
  "(0 < banking_score subj txt \<and> insurance_score subj txt = 0 \<and> it_score subj txt = 0
      \<longrightarrow> detect_industry subj txt = ''banking'')
   \<and> (banking_score subj txt = 0 \<and> 0 < insurance_score subj txt \<and> it_score subj txt = 0
      \<longrightarrow> detect_industry subj txt = ''insurance'')
   \<and> (banking_score subj txt = 0 \<and> insurance_score subj txt = 0 \<and> 0 < it_score subj txt
      \<longrightarrow> detect_industry subj txt = ''it_support'')"
  unfolding detect_industry_def by auto

theorem detect_industry_single_list_witness:
  "(0 < banking_score ''Loan'' ''my mortgage'' \<and> insurance_score ''Loan'' ''my mortgage'' = 0
      \<and> it_score ''Loan'' ''my mortgage'' = 0
      \<and> detect_industry ''Loan'' ''my mortgage'' = ''banking'')
   \<and> (banking_score ''Claim'' ''my policy'' = 0 \<and> 0 < insurance_score ''Claim'' ''my policy''
      \<and> it_score ''Claim'' ''my policy'' = 0
      \<and> detect_industry ''Claim'' ''my policy'' = ''insurance'')
   \<and> (banking_score ''VPN'' ''no login'' = 0 \<and> insurance_score ''VPN'' ''no login'' = 0
      \<and> 0 < it_score ''VPN'' ''no login''
      \<and> detect_industry ''VPN'' ''no login'' = ''it_support'')"
proof -
  have 1: "banking_score ''Loan'' ''my mortgage'' = 2
      \<and> insurance_score ''Loan'' ''my mortgage'' = 0 \<and> it_score ''Loan'' ''my mortgage'' = 0"
    by code_simp
  have 2: "banking_score ''Claim'' ''my policy'' = 0
      \<and> insurance_score ''Claim'' ''my policy'' = 2 \<and> it_score ''Claim'' ''my policy'' = 0"
    by code_simp
  have 3: "banking_score ''VPN'' ''no login'' = 0
      \<and> insurance_score ''VPN'' ''no login'' = 0 \<and> it_score ''VPN'' ''no login'' = 2"
    by code_simp
  show ?thesis
    using 1 2 3 detect_industry_single_list [of "''Loan''" "''my mortgage''"]
      detect_industry_single_list [of "''Claim''" "''my policy''"]
      detect_industry_single_list [of "''VPN''" "''no login''"]
    by simp
qed

text \<open>
  The example of C3: subject \<open>VPN Connection Problem\<close> and a body with
  \<open>vpn\<close>, \<open>network\<close> and \<open>password\<close> score 3 for IT support and 0 for
  banking and insurance, and the tag is \<open>it_support\<close>.
\<close>

theorem detect_industry_vpn_example:
  "it_score ''VPN Connection Problem'' ''The vpn and network reject my password'' = 3
   \<and> banking_score ''VPN Connection Problem'' ''The vpn and network reject my password'' = 0
   \<and> insurance_score ''VPN Connection Problem'' ''The vpn and network reject my password'' = 0
   \<and> detect_industry ''VPN Connection Problem'' ''The vpn and network reject my password''
       = ''it_support''"
  by code_simp

section \<open>The cleaning of the model's response\<close>

text \<open>
  Claim C4. A model output that is a JSON object between fenced-code-block
  markers should be cleaned to the text of the object, so that it parses like
  the unwrapped JSON, and the cleaning should remove a leading and a trailing
  marker only. The code tests \<open>startswith('```json')\<close> and then replaces the
  marker together with a newline after it, and the closing marker together
  with a newline before it. A response that starts with the marker and ends
  with the closing marker, without these newlines, is returned as it is; with
  CRLF line ends, or with a blank after \<open>json\<close>, the opening marker stays;
  without a newline before the closing marker, the closing marker stays. None
  of the four results is the text of the object.
\<close>

theorem clean_response_fence_not_stripped:
  "clean_response ''```json{\"a\": 1}```'' = ''```json{\"a\": 1}```''
   \<and> clean_response (''```json'' @ [CHR 0x0D, CHR ''\<newline>''] @ ''{\"a\": 1}''
        @ [CHR 0x0D, CHR ''\<newline>''] @ ''```'')
       = ''```json'' @ [CHR 0x0D, CHR ''\<newline>''] @ ''{\"a\": 1}'' @ [CHR 0x0D]
   \<and> clean_response ''```json \<newline>{\"a\": 1}\<newline>```'' = ''```json \<newline>{\"a\": 1}''
   \<and> clean_response ''```json\<newline>{\"a\": 1}```'' = ''{\"a\": 1}```''"
  by (simp add: clean_response_def strip_def is_space_def startswith_def)

text \<open>
  \<open>str.replace\<close> removes every occurrence of its pattern. A response with two
  fenced blocks loses the markers between the blocks too, and a marker inside
  a payload is removed with the outer ones, which here turns a text that is no
  JSON into the JSON text of \<open>[1, 2]\<close>. Removing the markers at the two ends
  only (\<open>spec_strip_fence\<close>) gives other texts.
\<close>

theorem clean_response_strips_inside:
  "clean_response ''```json\<newline>{}\<newline>```\<newline>```json\<newline>{}\<newline>```''
     = ''{}\<newline>{}''
   \<and> spec_strip_fence ''```json\<newline>{}\<newline>```\<newline>```json\<newline>{}\<newline>```''
     = ''{}\<newline>```\<newline>```json\<newline>{}''
   \<and> clean_response ''```json\<newline>[1,\<newline>```\<newline>2]\<newline>```''
     = ''[1,\<newline>2]''
   \<and> spec_strip_fence ''```json\<newline>[1,\<newline>```\<newline>2]\<newline>```''
     = ''[1,\<newline>```\<newline>2]''"
  by (simp add: clean_response_def spec_strip_fence_def strip_def is_space_def startswith_def
      suffix_def)

text \<open>
  Where the cleaning does what is asked of it: the marker lines end in a single
  newline character. Let \<open>J\<close> be the text of a JSON object: it starts with
  \<open>{\<close>, ends with \<open>}\<close> and contains neither the opening marker followed by
  a newline nor a newline followed by the closing marker (in a text that
  \<open>json.loads\<close> accepts a backquote stands inside a string literal only, and a
  string literal holds no raw newline). Then the cleaning of \<open>J\<close> between the
  marker lines gives exactly \<open>J\<close>, the cleaning of \<open>J\<close> alone gives \<open>J\<close> too,
  and so both parse to the same value.
\<close>

theorem clean_response_fenced:
  assumes obj: "J = CHR ''{'' # inner @ ''}''"
    and no_open: "\<not> str_contains ''```json\<newline>'' J"
    and no_close: "\<not> str_contains ''\<newline>```'' J"
  shows "clean_response (''```json\<newline>'' @ J @ ''\<newline>```'') = J
     \<and> clean_response J = J
     \<and> json_loads L (clean_response (''```json\<newline>'' @ J @ ''\<newline>```''))
         = json_loads L (clean_response J)"
proof -
  let ?wrapped = "''```json\<newline>'' @ J @ ''\<newline>```''"
  have J_ne: "J \<noteq> []" and J_hd: "hd J = CHR ''{''" and J_last: "last J = CHR ''}''"
    using obj by simp_all
  have no_fence: "\<not> startswith J ''```''"
    using obj by (simp add: startswith_def)
  have "strip J = J"
    using J_ne J_hd J_last by (intro strip_unchanged) (simp_all add: is_space_def)
  with no_fence have plain: "clean_response J = J"
    by (simp add: clean_response_no_fence)
  have strip_w: "strip ?wrapped = ?wrapped"
    by (intro strip_unchanged) (simp_all add: is_space_def)
  have starts: "startswith ?wrapped ''```json''"
    by (simp add: startswith_def)
  have "\<not> str_contains ''```json\<newline>'' (J @ ''\<newline>```'')"
    using no_open J_ne J_last by (intro not_contains_append) simp_all
  then have "str_replace ''```json\<newline>'' [] (J @ ''\<newline>```'') = J @ ''\<newline>```''"
    by (rule str_replace_absent)
  with str_replace_at_start [of "''```json\<newline>''" "[]" "J @ ''\<newline>```''"]
  have first: "str_replace ''```json\<newline>'' [] ?wrapped = J @ ''\<newline>```''"
    by simp
  have second: "str_replace ''\<newline>```'' [] (J @ ''\<newline>```'') = J"
    using no_close by (intro str_replace_at_end) simp_all
  from strip_w starts first second no_fence
  have "clean_response ?wrapped = J"
    by (simp add: clean_response_def Let_def)
  with plain show ?thesis by simp
qed

theorem clean_response_fenced_witness:
  "''{\"a\": 1}'' = CHR ''{'' # ''\"a\": 1'' @ ''}''
   \<and> \<not> str_contains ''```json\<newline>'' ''{\"a\": 1}''
   \<and> \<not> str_contains ''\<newline>```'' ''{\"a\": 1}''
   \<and> clean_response (''```json\<newline>'' @ ''{\"a\": 1}'' @ ''\<newline>```'') = ''{\"a\": 1}''
   \<and> clean_response ''{\"a\": 1}'' = ''{\"a\": 1}''"
proof -
  have 1: "''{\"a\": 1}'' = CHR ''{'' # ''\"a\": 1'' @ ''}''"
    by simp
  have 2: "\<not> str_contains ''```json\<newline>'' ''{\"a\": 1}''"
    by simp
  have 3: "\<not> str_contains ''\<newline>```'' ''{\"a\": 1}''"
    by simp
  from clean_response_fenced [OF 1 2 3] 1 2 3 show ?thesis
    by blast
qed

text \<open>
  Nothing but the trimming happens to a response that does not start with the
  marker after trimming; a closing marker alone stays.
\<close>

theorem clean_response_unfenced:
  "\<not> startswith (strip r) ''```'' \<longrightarrow> clean_response r = strip r"
  by (simp add: clean_response_no_fence)

theorem clean_response_unfenced_witness:
  "\<not> startswith (strip '' {}\<newline>```\<newline>'') ''```''
   \<and> clean_response '' {}\<newline>```\<newline>'' = ''{}\<newline>```''"
proof -
  have 1: "strip '' {}\<newline>```\<newline>'' = ''{}\<newline>```''"
    by (simp add: strip_def is_space_def)
  then have 2: "\<not> startswith (strip '' {}\<newline>```\<newline>'') ''```''"
    by (simp add: startswith_def)
  from clean_response_unfenced [of "'' {}\<newline>```\<newline>''"] 1 2 show ?thesis
    by simp
qed

section \<open>The handlers: what they answer and what they write\<close>

lemma except_500_simps [simp]:
  "except_500 (Inl e, s, calls) = (Inl (HTTPException 500 (StrOf e)), s, calls)"
  "except_500 (Inr v, s, calls) = (Inr v, s, calls)"
  by (simp_all add: except_500_def)

lemma answer_with_simps [simp]:
  "answer_with f (Inl e, s, calls) = (Inl e, s, calls)"
  "answer_with f (Inr v, s, calls) = (Inr (f v), s, calls)"
  by (simp_all add: answer_with_def)

lemma except_500_state [simp]: "fst (snd (except_500 r)) = fst (snd r)"
  by (cases r rule: prod_cases3) (auto simp: except_500_def split: sum.splits)

lemma answer_with_state [simp]: "fst (snd (answer_with f r)) = fst (snd r)"
  by (cases r rule: prod_cases3) (auto simp: answer_with_def split: sum.splits)

lemma except_500_Inr:
  "except_500 x = (Inr r, s1, calls) \<Longrightarrow> x = (Inr r, s1, calls)"
  by (cases x rule: prod_cases3) (auto simp: except_500_def split: sum.splits)

lemma except_500_status:
  "status_code (fst (except_500 x)) = 200 \<or> status_code (fst (except_500 x)) = 500"
  by (cases x rule: prod_cases3) (auto simp: except_500_def status_code_def split: sum.splits)

lemma submit_email_eq:
  "submit_email uuid4 now s email =
     (Inr (new_email_record uuid4 now email),
      s\<lparr>emails_db := (emails_db s)(uuid4 \<mapsto> new_email_record uuid4 now email)\<rparr>, [])"
  by (simp add: submit_email_def submit_email_body_def Let_def)


text \<open>
  \<open>analyze_email\<close> leaves the stores alone or binds the requested identifier,
  which was in the email store and not in the cache, in the cache.
\<close>

lemma analyze_email_body_state:
  "fst (snd (analyze_email_body L g s request)) = s
   \<or> (analysis_cache s (email_id request) = None
       \<and> emails_db s (email_id request) \<noteq> None
       \<and> (\<exists>v. fst (snd (analyze_email_body L g s request))
              = s\<lparr>analysis_cache := (analysis_cache s)(email_id request \<mapsto> v)\<rparr>))"
  by (auto simp: analyze_email_body_def Let_def split: option.splits sum.splits prod.splits)

lemma execute_action_body_state:
  "fst (snd (execute_action_body L g now s request)) = s"
  by (auto simp: execute_action_body_def Let_def
      split: option.splits sum.splits prod.splits exn.splits)



lemma analyze_email_cached:
  "analysis_cache s (email_id request) = Some v
   \<Longrightarrow> analyze_email L g s request = except_500 (AnalysisResponse L v, s, [])"
  by (simp add: analyze_email_def analyze_email_body_def)

lemma analyze_email_body_success:
  "analyze_email_body L g s request = (Inr r, s1, calls)
   \<Longrightarrow> \<exists>v. analysis_cache s1 (email_id request) = Some v \<and> AnalysisResponse L v = Inr r"
  by (auto simp: analyze_email_body_def Let_def split: option.splits sum.splits prod.splits)




subsection \<open>Steps and runs\<close>

lemma next_state_simps:
  "next_state L s Root = s"
  "next_state L s GetTemplates = s"
  "next_state L s (SubmitEmail email uuid4 now) =
     s\<lparr>emails_db := (emails_db s)(uuid4 \<mapsto> new_email_record uuid4 now email)\<rparr>"
  "next_state L s (GetEmailsByIndustry industry) = s"
  "next_state L s (AnalyzeEmail request g) = fst (snd (analyze_email_body L g s request))"
  "next_state L s (ExecuteAction ex g now) = s"
  "next_state L s (HealthCheck now) = s"
  by (simp_all add: next_state_def submit_email_eq analyze_email_def execute_action_def
      execute_action_body_state)

lemma next_state_emails:
  "emails_db (next_state L s ev) =
     (case ev of
        SubmitEmail email uuid4 now \<Rightarrow> (emails_db s)(uuid4 \<mapsto> new_email_record uuid4 now email)
      | _ \<Rightarrow> emails_db s)"
proof (cases ev)
  case (AnalyzeEmail request g)
  then show ?thesis
    using analyze_email_body_state [of L g s request]
    by (auto simp: next_state_simps)
qed (simp_all add: next_state_simps)

lemma next_state_cache_keeps:
  "analysis_cache s k = Some v \<Longrightarrow> analysis_cache (next_state L s ev) k = Some v"
proof (cases ev)
  case (AnalyzeEmail request g)
  then show "analysis_cache s k = Some v \<Longrightarrow> ?thesis"
    using analyze_email_body_state [of L g s request]
    by (auto simp: next_state_simps)
qed (simp_all add: next_state_simps)

lemma next_state_cache_dom:
  "dom (analysis_cache (next_state L s ev)) \<subseteq> dom (analysis_cache s) \<union> dom (emails_db s)"
proof (cases ev)
  case (AnalyzeEmail request g)
  then show ?thesis
    using analyze_email_body_state [of L g s request]
    by (auto simp: next_state_simps split: if_splits)
qed (simp_all add: next_state_simps)


lemma run_Nil [simp]: "run L s [] = s"
  by (simp add: run_def)

lemma run_Cons [simp]: "run L s (ev # evs) = run L (next_state L s ev) evs"
  by (simp add: run_def)

lemma run_append [simp]: "run L s (evs @ evs') = run L (run L s evs) evs'"
  by (simp add: run_def)

lemma run_cache_keeps:
  "analysis_cache s k = Some v \<Longrightarrow> analysis_cache (run L s evs) k = Some v"
  by (induction evs arbitrary: s) (simp_all add: next_state_cache_keeps)

lemma run_invariant:
  "dom (analysis_cache s) \<subseteq> dom (emails_db s)
   \<Longrightarrow> dom (analysis_cache (run L s evs)) \<subseteq> dom (emails_db (run L s evs))"
proof (induction evs arbitrary: s)
  case Nil
  then show ?case by simp
next
  case (Cons ev evs)
  have "dom (emails_db s) \<subseteq> dom (emails_db (next_state L s ev))"
    by (cases ev) (auto simp: next_state_emails)
  with Cons.prems next_state_cache_dom [of L s ev]
  have "dom (analysis_cache (next_state L s ev)) \<subseteq> dom (emails_db (next_state L s ev))"
    by blast
  then show ?case using Cons.IH by simp
qed

lemma generated_ids_append:
  "generated_ids (xs @ ys) = generated_ids xs @ generated_ids ys"
  by (induction xs rule: generated_ids.induct) simp_all



subsection \<open>The sample inputs\<close>

lemma clean_response_braces: "clean_response ''{}'' = ''{}''"
  by (simp add: clean_response_def strip_def is_space_def startswith_def)

lemma clean_response_not_json: "clean_response ''not json'' = ''not json''"
  by (simp add: clean_response_def strip_def is_space_def startswith_def)

lemma stub_lib_simps:
  "json_loads stub_lib ''{}'' = Inr (JObject [])"
  "json_loads stub_lib ''not json'' = Inl JSONDecodeError"
  "AnalysisResponse stub_lib v = Inr v"
  "ActionResponse stub_lib v = Inr v"
  by (simp_all add: stub_lib_def)


lemma one_email_simps:
  "emails_db one_email ''id-1'' = Some (new_email_record ''id-1'' ''12:00'' sample_email)"
  "analysis_cache one_email k = None"
  by (simp_all add: one_email_def)

section \<open>Not-found conditions\<close>

text \<open>
  Claim C2. An analysis request for an identifier that is not in the email
  store, and an action request for an email without analysis or without
  record, should fail with status 404. The handlers raise
  \<open>HTTPException(status_code=404)\<close> inside their own \<open>try\<close>, whose
  \<open>except Exception\<close> catches it, as \<open>HTTPException\<close> is an \<open>Exception\<close>,
  and raises \<open>HTTPException(status_code=500)\<close> in its place: the caller gets
  status 500.
\<close>

theorem not_found_answers_500:
  "analyze_email L g init_state \<lparr>email_id = ''no-such-id''\<rparr>
     = (Inl (HTTPException 500 (StrOf (HTTPException 404 (Detail ''Email not found'')))),
        init_state, [])
   \<and> status_code (fst (analyze_email L g init_state \<lparr>email_id = ''no-such-id''\<rparr>)) = 500
   \<and> execute_action L g now init_state
        \<lparr>exec_email_id = ''no-such-id'', action_id = a, action_label = l\<rparr>
     = (Inl (HTTPException 500 (StrOf (HTTPException 404 (Detail ''Email not found'')))),
        init_state, [])
   \<and> execute_action L g now one_email
        \<lparr>exec_email_id = ''id-1'', action_id = a, action_label = l\<rparr>
     = (Inl (HTTPException 500 (StrOf (HTTPException 404 (Detail ''Analysis not found'')))),
        one_email, [])
   \<and> status_code (fst (execute_action L g now one_email
        \<lparr>exec_email_id = ''id-1'', action_id = a, action_label = l\<rparr>)) = 500"
  by (simp add: analyze_email_def analyze_email_body_def execute_action_def
      execute_action_body_def init_state_def one_email_def status_code_def Let_def)

text \<open>
  No answer of the three handlers has another status than 200 or 500, and
  \<open>submit_email\<close> always answers 200.
\<close>

theorem handler_status_200_or_500:
  "(status_code (fst (analyze_email L g s request)) = 200
      \<or> status_code (fst (analyze_email L g s request)) = 500)
   \<and> (status_code (fst (execute_action L g now s ex)) = 200
      \<or> status_code (fst (execute_action L g now s ex)) = 500)
   \<and> status_code (fst (submit_email uuid4 now s email)) = 200"
  using except_500_status [of "analyze_email_body L g s request"]
    except_500_status [of "execute_action_body L g now s ex"]
  by (simp add: analyze_email_def execute_action_def submit_email_eq status_code_def)

section \<open>The external model's failures\<close>


section \<open>The second parse\<close>

text \<open>
  Claim C8. When the cleaned response of the first call is no JSON
  (\<open>json.loads\<close> raises \<open>JSONDecodeError\<close>), \<open>analyze_email\<close> makes exactly one
  more call, with the generic prompt, and parses its text (as it is,
  uncleaned). If that parse raises, the exception leaves the handler as status
  500 and nothing is stored; if it succeeds its value is stored and answered.
\<close>

theorem fallback_parse_unguarded:
  assumes "analysis_cache s (email_id request) = None"
    and "emails_db s (email_id request) = Some email"
    and "call_gemini_api g (analysis_prompt email) = Inr response"
    and "json_loads L (clean_response response) = Inl JSONDecodeError"
    and "call_gemini_api g fallback_prompt = Inr second"
  shows "analyze_email L g s request =
     (case json_loads L second of
        Inl e \<Rightarrow> (Inl (HTTPException 500 (StrOf e)), s, [analysis_prompt email, fallback_prompt])
      | Inr v \<Rightarrow>
          except_500 (AnalysisResponse L v,
            s\<lparr>analysis_cache := (analysis_cache s)(email_id request \<mapsto> v)\<rparr>,
            [analysis_prompt email, fallback_prompt]))"
  using assms
  by (simp add: analyze_email_def analyze_email_body_def parse_analysis_def split: sum.splits)

theorem fallback_parse_unguarded_witness:
  "analysis_cache one_email ''id-1'' = None
   \<and> emails_db one_email ''id-1'' = Some (new_email_record ''id-1'' ''12:00'' sample_email)
   \<and> call_gemini_api (answers_with ''not json'')
        (analysis_prompt (new_email_record ''id-1'' ''12:00'' sample_email)) = Inr ''not json''
   \<and> json_loads stub_lib (clean_response ''not json'') = Inl JSONDecodeError
   \<and> call_gemini_api (answers_with ''not json'') fallback_prompt = Inr ''not json''
   \<and> analyze_email stub_lib (answers_with ''not json'') one_email \<lparr>email_id = ''id-1''\<rparr>
       = (Inl (HTTPException 500 (StrOf JSONDecodeError)), one_email,
          [analysis_prompt (new_email_record ''id-1'' ''12:00'' sample_email), fallback_prompt])
   \<and> status_code (fst (analyze_email stub_lib (answers_with ''not json'') one_email
        \<lparr>email_id = ''id-1''\<rparr>)) = 500"
proof -
  have 1: "analysis_cache one_email (email_id \<lparr>email_id = ''id-1''\<rparr>) = None"
    by (simp add: one_email_simps)
  have 2: "emails_db one_email (email_id \<lparr>email_id = ''id-1''\<rparr>)
      = Some (new_email_record ''id-1'' ''12:00'' sample_email)"
    by (simp add: one_email_simps)
  have 3: "call_gemini_api (answers_with ''not json'')
        (analysis_prompt (new_email_record ''id-1'' ''12:00'' sample_email)) = Inr ''not json''"
    by (simp add: call_gemini_api_def answers_with_def)
  have 4: "json_loads stub_lib (clean_response ''not json'') = Inl JSONDecodeError"
    by (simp add: clean_response_not_json stub_lib_simps)
  have 5: "call_gemini_api (answers_with ''not json'') fallback_prompt = Inr ''not json''"
    by (simp add: call_gemini_api_def answers_with_def)
  from fallback_parse_unguarded [OF 1 2 3 4 5] 1 2 3 4 5 show ?thesis
    by (simp add: stub_lib_simps status_code_def)
qed

section \<open>The analysis cache\<close>

text \<open>
  Claim C5. When \<open>analyze_email\<close> answers an analysis for an identifier, the
  value it parsed is in the cache under that identifier, it stays there
  through every later sequence of requests, and every later \<open>analyze_email\<close>
  for the identifier answers the same analysis, whatever the external model
  does, without calling it and without a write.
\<close>

theorem analyze_twice_same:
  assumes "analyze_email L g s request = (Inr r, s1, calls)"
  shows "\<exists>v. analysis_cache s1 (email_id request) = Some v
           \<and> AnalysisResponse L v = Inr r
           \<and> analysis_cache (run L s1 evs) (email_id request) = Some v
           \<and> analyze_email L g' (run L s1 evs) request = (Inr r, run L s1 evs, [])"
proof -
  from assms have "analyze_email_body L g s request = (Inr r, s1, calls)"
    unfolding analyze_email_def by (rule except_500_Inr)
  then obtain v where v: "analysis_cache s1 (email_id request) = Some v"
      "AnalysisResponse L v = Inr r"
    using analyze_email_body_success by blast
  from v(1) have later: "analysis_cache (run L s1 evs) (email_id request) = Some v"
    by (rule run_cache_keeps)
  from later v(2) have "analyze_email L g' (run L s1 evs) request = (Inr r, run L s1 evs, [])"
    by (simp add: analyze_email_cached)
  with v later show ?thesis by blast
qed

theorem analyze_twice_same_witness:
  "analyze_email stub_lib (answers_with ''{}'') one_email \<lparr>email_id = ''id-1''\<rparr>
     = (Inr (JObject []),
        one_email\<lparr>analysis_cache := (analysis_cache one_email)(''id-1'' \<mapsto> JObject [])\<rparr>,
        [analysis_prompt (new_email_record ''id-1'' ''12:00'' sample_email)])
   \<and> analyze_email stub_lib unavailable
        (run stub_lib
           (one_email\<lparr>analysis_cache := (analysis_cache one_email)(''id-1'' \<mapsto> JObject [])\<rparr>)
           [HealthCheck ''12:01'', SubmitEmail sample_email ''id-2'' ''12:02''])
        \<lparr>email_id = ''id-1''\<rparr>
     = (Inr (JObject []),
        run stub_lib
           (one_email\<lparr>analysis_cache := (analysis_cache one_email)(''id-1'' \<mapsto> JObject [])\<rparr>)
           [HealthCheck ''12:01'', SubmitEmail sample_email ''id-2'' ''12:02''],
        [])"
proof -
  have first: "analyze_email stub_lib (answers_with ''{}'') one_email \<lparr>email_id = ''id-1''\<rparr>
     = (Inr (JObject []),
        one_email\<lparr>analysis_cache := (analysis_cache one_email)(''id-1'' \<mapsto> JObject [])\<rparr>,
        [analysis_prompt (new_email_record ''id-1'' ''12:00'' sample_email)])"
    by (simp add: analyze_email_def analyze_email_body_def parse_analysis_def
        call_gemini_api_def answers_with_def clean_response_braces stub_lib_simps
        one_email_simps Let_def)
  from analyze_twice_same [OF first,
      of "[HealthCheck ''12:01'', SubmitEmail sample_email ''id-2'' ''12:02'']" unavailable]
  show ?thesis using first by blast
qed

text \<open>
  Claim C9. In every state that a sequence of requests reaches from the empty
  stores, every key of the analysis cache is a key of the email store.
\<close>

theorem cache_keys_have_emails:
  "dom (analysis_cache (run L init_state evs)) \<subseteq> dom (emails_db (run L init_state evs))"
  by (rule run_invariant) (simp add: init_state_def)

section \<open>Submissions\<close>



section \<open>What the endpoints write\<close>




end
